theory Spec2Isabelle
  imports Main "HOL-Library.Word"
begin

section \<open>Strings of the host language\<close>

text \<open>
  The plugin works on JavaScript strings. A string is a sequence of 16-bit code units.
  A literal of the source is written \<open>js ''...''\<close>, with one code unit for each of its
  characters. The three built-ins the plugin calls on strings (a regular-expression
  replace, \<^verbatim>\<open>trim\<close> and \<^verbatim>\<open>JSON.stringify\<close>) are written out as ECMAScript defines
  them.
\<close>

type_synonym jsstring = "16 word list"

definition js :: "string \<Rightarrow> jsstring" where
  "js s = map of_char s"

text \<open>
  The class \<^verbatim>\<open>\s\<close> of a regular expression and the characters \<^verbatim>\<open>trim\<close> strips are the
  same set, white space and line terminators: tab, line feed, vertical tab, form feed,
  carriage return, space, no-break space, the byte order mark U+FEFF, the line and
  paragraph separators U+2028 and U+2029, and the other space separators of Unicode
  (U+1680, U+2000 to U+200A, U+202F, U+205F and U+3000).
\<close>

definition isWhiteSpace :: "16 word \<Rightarrow> bool" where
  "isWhiteSpace c =
     (c \<in> set [0x09, 0x0A, 0x0B, 0x0C, 0x0D, 0x20, 0xA0, 0x1680, 0x2028, 0x2029,
               0x202F, 0x205F, 0x3000, 0xFEFF]
      \<or> (0x2000 \<le> c \<and> c \<le> 0x200A))"

text \<open>
  \<^verbatim>\<open>contents.replace(/\s{2,}/g, " ")\<close>: scanning from the left, a maximal run of two or
  more white-space characters becomes one space; a white-space character on its own is
  copied.
\<close>

function collapseWhitespace :: "jsstring \<Rightarrow> jsstring" where
  "collapseWhitespace [] = []"
| "collapseWhitespace [c] = [c]"
| "collapseWhitespace (c # d # cs) =
     (if isWhiteSpace c \<and> isWhiteSpace d
      then 0x20 # collapseWhitespace (dropWhile isWhiteSpace cs)
      else c # collapseWhitespace (d # cs))"
  by pat_completeness auto
termination
  by (relation "measure length") (auto intro: le_less_trans [OF length_dropWhile_le])

text \<open>\<^verbatim>\<open>.replace(/\t|\r|\n/g, "")\<close>: every tab, carriage return and line feed is deleted.\<close>

definition isTabOrNewline :: "16 word \<Rightarrow> bool" where
  "isTabOrNewline c = (c = 0x09 \<or> c = 0x0D \<or> c = 0x0A)"

definition removeTabsNewlines :: "jsstring \<Rightarrow> jsstring" where
  "removeTabsNewlines s = filter (\<lambda>c. \<not> isTabOrNewline c) s"

text \<open>\<^verbatim>\<open>.trim()\<close>: white space is stripped from both ends.\<close>

definition trim :: "jsstring \<Rightarrow> jsstring" where
  "trim s = rev (dropWhile isWhiteSpace (rev (dropWhile isWhiteSpace s)))"

text \<open>
  \<^verbatim>\<open>minifyContents(contents)\<close> (CSSplugin.ts, lines 213 to 215) chains the three.
\<close>

definition minifyContents :: "jsstring \<Rightarrow> jsstring" where
  "minifyContents contents = trim (removeTabsNewlines (collapseWhitespace contents))"

text \<open>
  \<^verbatim>\<open>JSON.stringify\<close> of a string: the string between double quotes, where a double quote
  and a backslash are escaped with a backslash, backspace, tab, line feed, form feed and
  carriage return have their short escapes, and any other code unit below U+0020 is
  written \<^verbatim>\<open>\u00XX\<close> in lower-case hexadecimal. A high surrogate followed by a low
  surrogate is copied as a pair; a surrogate on its own is written \<^verbatim>\<open>\uXXXX\<close>.
  Everything else is copied.
\<close>

definition hexDigit :: "nat \<Rightarrow> 16 word" where
  "hexDigit n = js ''0123456789abcdef'' ! (n mod 16)"

definition unicodeEscape :: "16 word \<Rightarrow> jsstring" where
  "unicodeEscape c =
     [0x5C, 0x75, hexDigit (unat c div 4096), hexDigit (unat c div 256),
      hexDigit (unat c div 16), hexDigit (unat c)]"

definition isHighSurrogate :: "16 word \<Rightarrow> bool" where
  "isHighSurrogate c = (0xD800 \<le> c \<and> c \<le> 0xDBFF)"

definition isLowSurrogate :: "16 word \<Rightarrow> bool" where
  "isLowSurrogate c = (0xDC00 \<le> c \<and> c \<le> 0xDFFF)"

definition quoteJSONChar :: "16 word \<Rightarrow> jsstring" where
  "quoteJSONChar c =
     (if c = 0x08 then [0x5C, 0x62]
      else if c = 0x09 then [0x5C, 0x74]
      else if c = 0x0A then [0x5C, 0x6E]
      else if c = 0x0C then [0x5C, 0x66]
      else if c = 0x0D then [0x5C, 0x72]
      else if c = 0x22 then [0x5C, 0x22]
      else if c = 0x5C then [0x5C, 0x5C]
      else if c < 0x20 \<or> isHighSurrogate c \<or> isLowSurrogate c then unicodeEscape c
      else [c])"

fun quoteJSONString :: "jsstring \<Rightarrow> jsstring" where
  "quoteJSONString [] = []"
| "quoteJSONString [c] = quoteJSONChar c"
| "quoteJSONString (c # d # cs) =
     (if isHighSurrogate c \<and> isLowSurrogate d then c # d # quoteJSONString cs
      else quoteJSONChar c @ quoteJSONString (d # cs))"

definition JSON_stringify :: "jsstring \<Rightarrow> jsstring" where
  "JSON_stringify s = [0x22] @ quoteJSONString s @ [0x22]"

text \<open>
  A string is truthy when it is not empty; \<^verbatim>\<open>undefined\<close> is falsy. The plugin tests
  its \<^verbatim>\<open>group\<close> option, a module's source map and the last changed file this way.
\<close>

definition truthy :: "jsstring option \<Rightarrow> bool" where
  "truthy v = (case v of None \<Rightarrow> False | Some s \<Rightarrow> s \<noteq> [])"

section \<open>Configuration and the plugin instance\<close>

text \<open>
  \<^verbatim>\<open>CSSPluginOptions\<close> (lines 11 to 16). An option that is absent is \<^const>\<open>None\<close>. The
  \<^verbatim>\<open>outFile\<close> option is a path or a function from the module's path to a path; the
  \<^verbatim>\<open>inject\<close> option is a boolean or such a function.
\<close>

datatype outFileOption = OutFilePath jsstring | OutFileFunction "jsstring \<Rightarrow> jsstring"

datatype injectOption = InjectBool bool | InjectFunction "jsstring \<Rightarrow> jsstring"

record CSSPluginOptions =
  opt_outFile :: "outFileOption option"
  opt_inject :: "injectOption option"
  opt_group :: "jsstring option"
  opt_minify :: "bool option"

text \<open>The instance keeps the options and its private \<^verbatim>\<open>minify\<close> flag.\<close>

record CSSPluginClass =
  plugin_options :: CSSPluginOptions
  plugin_minify :: bool

text \<open>The constructor (lines 36 to 42): \<^verbatim>\<open>minify\<close> is false unless the option is given.\<close>

definition CSSPlugin :: "CSSPluginOptions \<Rightarrow> CSSPluginClass" where
  "CSSPlugin opts =
     \<lparr>plugin_options = opts,
      plugin_minify = (case opt_minify opts of None \<Rightarrow> False | Some m \<Rightarrow> m)\<rparr>"

section \<open>The host: modules, the workflow context and what the plugin does to them\<close>

text \<open>
  A module (\<^verbatim>\<open>File\<close>) is an object of the host, shared by reference between the
  dependency graph and the groups it joins. Objects live in a store indexed by
  addresses; a group holds the addresses of its members.
\<close>

record File =
  fuseBoxPath :: jsstring
  absPath :: jsstring
  isLoaded :: bool
  contents :: jsstring
  sourceMap :: "jsstring option"
  alternativeContent :: "jsstring option"
  subFiles :: "nat list"
  groupHandler :: "CSSPluginClass option"

text \<open>The event the change notifier sends (lines 122 to 126).\<close>

record ChangeEvent =
  ev_type :: jsstring
  ev_content :: "jsstring option"
  ev_path :: jsstring

text \<open>
  Everything the plugin does that the host can observe, in the order it happens: a line
  for the debug log, a read of a module's file, a fatal error, the start of a write with
  its path and content, the end of a write (the promise resolved) or its failure (the
  promise rejected), a replacement produced by \<^verbatim>\<open>inject\<close> for a module, a module
  (by its address) being appended to a group, with the source map the module has at
  that moment, and a change event.
\<close>

datatype effect =
    Debug jsstring
  | ReadFile jsstring
  | Fatal jsstring
  | WriteBegin jsstring jsstring
  | WriteEnd jsstring
  | WriteError jsstring jsstring
  | Inject jsstring jsstring
  | Appended nat "jsstring option"
  | Emit ChangeEvent

record Bundle =
  lastChangedFile :: "jsstring option"

text \<open>
  The workflow context with the store of modules: the registry of groups by name, the
  next free address, the bundle of an incremental build if there is one, and the effects
  so far.
\<close>

record world =
  files :: "nat \<Rightarrow> File"
  fileGroups :: "jsstring \<rightharpoonup> nat"
  nextFile :: nat
  currentBundle :: "Bundle option"
  trace :: "effect list"

text \<open>
  Functions of the host and of Node that the plugin calls and whose code is not part of
  the plugin: they are parameters. \<^verbatim>\<open>isStylesheetExtension\<close>, \<^verbatim>\<open>ensureUserPath\<close>
  and \<^verbatim>\<open>write\<close> come from the host's utilities, \<^verbatim>\<open>fatal\<close> from its workflow
  context, and \<^verbatim>\<open>dirname\<close>, \<^verbatim>\<open>basename\<close> and \<^verbatim>\<open>join\<close> from Node's \<^verbatim>\<open>path\<close>.
  \<^verbatim>\<open>ensureUserPath\<close> resolves a path; that it creates missing directories is not
  recorded. It hands its argument to Node's \<^verbatim>\<open>path\<close> functions, which throw a
  \<^verbatim>\<open>TypeError\<close> on an argument that is not a string: the plugin's call of it on a
  function is written out as that exception where it happens. \<^verbatim>\<open>write_error\<close> says whether
  a write of a content to a path fails, and with which error. \<^verbatim>\<open>fatal_throws\<close> says
  whether \<^verbatim>\<open>fatal\<close> raises an exception or returns to its caller.
  \<^verbatim>\<open>mergeSourceMaps\<close> is the source map of a concatenation.
\<close>

record host =
  isStylesheetExtension :: "jsstring \<Rightarrow> bool"
  ensureUserPath :: "jsstring \<Rightarrow> jsstring"
  path_dirname :: "jsstring \<Rightarrow> jsstring"
  path_basename :: "jsstring \<Rightarrow> jsstring"
  path_join :: "jsstring \<Rightarrow> jsstring \<Rightarrow> jsstring"
  readFile :: "jsstring \<Rightarrow> jsstring"
  write_error :: "jsstring \<Rightarrow> jsstring \<Rightarrow> jsstring option"
  fatal_throws :: bool
  mergeSourceMaps :: "(jsstring option \<times> jsstring \<times> jsstring option) list \<Rightarrow> jsstring"

text \<open>
  How a call ends: it returns, it throws, or it returns a promise that is resolved or
  rejected. A promise is followed to its settlement: a continuation runs right after the
  write it waits for, and the steps of other modules in between are not modelled.
\<close>

datatype completion = Returned | Threw jsstring | Resolved | Rejected jsstring

definition logEffect :: "effect \<Rightarrow> world \<Rightarrow> world" where
  "logEffect e w = w\<lparr>trace := trace w @ [e]\<rparr>"

definition updateFile :: "nat \<Rightarrow> (File \<Rightarrow> File) \<Rightarrow> world \<Rightarrow> world" where
  "updateFile fid f w = w\<lparr>files := (files w)(fid := f (files w fid))\<rparr>"

text \<open>\<^verbatim>\<open>context.debugPlugin(this, text)\<close>: the host's debug sink.\<close>

definition debugPlugin :: "jsstring \<Rightarrow> world \<Rightarrow> world" where
  "debugPlugin text w = logEffect (Debug text) w"

text \<open>
  Modelled from the spec: \<^verbatim>\<open>File.hasSubFiles\<close> is a method of the host's module
  class, which is not among the plugin's sources. A module that is the aggregation
  point of a group has members.
\<close>

definition hasSubFiles :: "File \<Rightarrow> bool" where
  "hasSubFiles file = (subFiles file \<noteq> [])"

text \<open>
  Modelled from the spec: \<^verbatim>\<open>File.loadContents\<close> is a method of the host's module
  class, which is not among the plugin's sources. It loads the module's raw content
  from its file if the content is not loaded yet.
\<close>

definition loadContents :: "host \<Rightarrow> nat \<Rightarrow> world \<Rightarrow> world" where
  "loadContents h fid w =
     (if isLoaded (files w fid) then w
      else logEffect (ReadFile (absPath (files w fid)))
             (updateFile fid
                (\<lambda>file. file\<lparr>contents := readFile h (absPath file), isLoaded := True\<rparr>) w))"

text \<open>
  Modelled from the spec: \<^verbatim>\<open>File.addAlternativeContent\<close> is a method of the host's
  module class, which is not among the plugin's sources. The alternative content is the
  replacement for the module's body that the bundle sees, and the call sets it.
\<close>

definition addAlternativeContent :: "nat \<Rightarrow> jsstring \<Rightarrow> world \<Rightarrow> world" where
  "addAlternativeContent fid str w =
     updateFile fid (\<lambda>file. file\<lparr>alternativeContent := Some str\<rparr>) w"

text \<open>
  Modelled from the spec: \<^verbatim>\<open>File.addSubFile\<close> is a method of the host's module class,
  which is not among the plugin's sources. A group's members are kept in the order they
  were appended; the call is recorded among the effects with the member as it is then.
\<close>

definition addSubFile :: "nat \<Rightarrow> nat \<Rightarrow> world \<Rightarrow> world" where
  "addSubFile gid fid w =
     logEffect (Appended fid (sourceMap (files w fid)))
       (updateFile gid (\<lambda>g. g\<lparr>subFiles := subFiles g @ [fid]\<rparr>) w)"

text \<open>
  Modelled from the spec: \<^verbatim>\<open>File.generateCorrectSourceMap\<close> is a method of the host's
  module class, which is not among the plugin's sources. A member contributes its own
  source map to the concatenation.
\<close>

definition generateCorrectSourceMap :: "File \<Rightarrow> jsstring option" where
  "generateCorrectSourceMap file = sourceMap file"

text \<open>
  Modelled from the spec: \<^verbatim>\<open>context.getFileGroup\<close> is the lookup in the group
  registry of the workflow context, which is not among the plugin's sources. A group is
  keyed by its name.
\<close>

definition getFileGroup :: "jsstring \<Rightarrow> world \<Rightarrow> nat option" where
  "getFileGroup name w = fileGroups w name"

text \<open>
  Modelled from the spec: \<^verbatim>\<open>context.createFileGroup\<close> belongs to the same registry,
  which is not among the plugin's sources. It makes a new module, the aggregation
  point, whose logical path is the group's name, with no members, bound to the plugin
  instance that created it, and registers it under the name.
\<close>

definition createFileGroup :: "jsstring \<Rightarrow> CSSPluginClass \<Rightarrow> world \<Rightarrow> nat \<times> world" where
  "createFileGroup name handler w =
     (let gid = nextFile w;
          g = \<lparr>fuseBoxPath = name, absPath = name, isLoaded = False, contents = [],
               sourceMap = None, alternativeContent = None, subFiles = [],
               groupHandler = Some handler\<rparr>
      in (gid, w\<lparr>files := (files w)(gid := g),
                 fileGroups := (fileGroups w)(name \<mapsto> gid),
                 nextFile := Suc gid\<rparr>))"

text \<open>
  Modelled from the spec: \<^verbatim>\<open>Concat\<close> is a helper class that is not among the plugin's
  sources. It merges the parts added to it, in the order they were added, into one
  content with the separator between two parts, and into one source map. The plugin
  makes it with \<^verbatim>\<open>new Concat(true, "", "\n")\<close>; the separator is what the model keeps.
\<close>

record Concat =
  separator :: jsstring
  parts :: "(jsstring option \<times> jsstring \<times> jsstring option) list"

text \<open>Modelled from the spec: the constructor of \<^verbatim>\<open>Concat\<close>; nothing is added yet.\<close>

definition Concat_new :: "jsstring \<Rightarrow> Concat" where
  "Concat_new sep = \<lparr>separator = sep, parts = []\<rparr>"

text \<open>
  Modelled from the spec: \<^verbatim>\<open>Concat.add(fileName, content, sourceMap)\<close> appends a part
  after those added before.
\<close>

definition Concat_add :: "jsstring option \<Rightarrow> jsstring \<Rightarrow> jsstring option \<Rightarrow> Concat \<Rightarrow> Concat" where
  "Concat_add name content smap c = c\<lparr>parts := parts c @ [(name, content, smap)]\<rparr>"

fun joinWith :: "jsstring \<Rightarrow> jsstring list \<Rightarrow> jsstring" where
  "joinWith sep [] = []"
| "joinWith sep [x] = x"
| "joinWith sep (x # y # ys) = x @ sep @ joinWith sep (y # ys)"

text \<open>
  Modelled from the spec: \<^verbatim>\<open>Concat.content\<close> is the contents of the parts in order,
  with the separator between two of them.
\<close>

definition Concat_content :: "Concat \<Rightarrow> jsstring" where
  "Concat_content c = joinWith (separator c) (map (\<lambda>(name, content, smap). content) (parts c))"

text \<open>
  Modelled from the spec: \<^verbatim>\<open>Concat.sourceMap\<close> is the merged source map of the parts;
  how the host merges them is a parameter.
\<close>

definition Concat_sourceMap :: "host \<Rightarrow> Concat \<Rightarrow> jsstring" where
  "Concat_sourceMap h c = mergeSourceMaps h (parts c)"

text \<open>
  \<^verbatim>\<open>write(path, contents)\<close>, named \<open>writeFile\<close> here, starts a write and returns a
  promise. The result is the error of a rejected promise, or \<^const>\<open>None\<close> when the write
  has completed.
\<close>

definition writeFile :: "host \<Rightarrow> jsstring \<Rightarrow> jsstring \<Rightarrow> world \<Rightarrow> jsstring option \<times> world" where
  "writeFile h p c w =
     (let w1 = logEffect (WriteBegin p c) w
      in case write_error h p c of
           None \<Rightarrow> (None, logEffect (WriteEnd p) w1)
         | Some e \<Rightarrow> (Some e, logEffect (WriteError p e) w1))"

section \<open>The plugin\<close>

text \<open>
  \<^verbatim>\<open>inject(file, options, alternative)\<close> (lines 60 to 75). The path in the call is the
  module's logical path, or what the \<^verbatim>\<open>inject\<close> function makes of it; the result is
  the empty string when the option is \<^verbatim>\<open>false\<close>, and the call of the runtime function
  with the path otherwise. The result becomes the module's alternative content when
  \<^verbatim>\<open>alternative\<close> is set and its content otherwise; it is also recorded among the
  effects.
\<close>

definition injectResult :: "CSSPluginOptions \<Rightarrow> jsstring \<Rightarrow> jsstring" where
  \<open>injectResult options path =
     (let resolvedPath =
            (case opt_inject options of
               Some (InjectFunction f) \<Rightarrow> f path
             | _ \<Rightarrow> path)
      in case opt_inject options of
           Some (InjectBool False) \<Rightarrow> []
         | _ \<Rightarrow> (js ''__fsbx_css("'') @ resolvedPath @ (js ''");''))\<close>

definition inject :: "nat \<Rightarrow> CSSPluginOptions \<Rightarrow> bool \<Rightarrow> world \<Rightarrow> world" where
  "inject fid options alternative w =
     (let result = injectResult options (fuseBoxPath (files w fid));
          w1 = logEffect (Inject (fuseBoxPath (files w fid)) result) w
      in if alternative then addAlternativeContent fid result w1
         else updateFile fid (\<lambda>file. file\<lparr>contents := result\<rparr>) w1)"

text \<open>
  \<^verbatim>\<open>emitHMR(file)\<close> (lines 114 to 128). An event is required unless there is a bundle
  with a last changed file (a string that is not empty) that is not a stylesheet.
\<close>

definition emitRequired :: "host \<Rightarrow> world \<Rightarrow> bool" where
  "emitRequired h w =
     (case currentBundle w of
        None \<Rightarrow> True
      | Some b \<Rightarrow>
          (case lastChangedFile b of
             None \<Rightarrow> True
           | Some changed \<Rightarrow> if changed = [] then True else isStylesheetExtension h changed))"

definition emitHMR :: "host \<Rightarrow> nat \<Rightarrow> world \<Rightarrow> world" where
  "emitHMR h fid w =
     (if emitRequired h w
      then logEffect
             (Emit \<lparr>ev_type = (js ''js''),
                    ev_content = alternativeContent (files w fid),
                    ev_path = fuseBoxPath (files w fid)\<rparr>) w
      else w)"

text \<open>
  The loop of \<^verbatim>\<open>transformGroup\<close> over the members (lines 83 to 86): each member is
  logged and added to the concatenation with its path, its content and its source map.
\<close>

fun concatSubFiles :: "nat list \<Rightarrow> Concat \<times> world \<Rightarrow> Concat \<times> world" where
  "concatSubFiles [] cw = cw"
| "concatSubFiles (fid # fids) (c, w) =
     (let file = files w fid;
          w1 = debugPlugin ((js ''  -> Concat '') @ fuseBoxPath file) w
      in concatSubFiles fids
           (Concat_add (Some (fuseBoxPath file)) (contents file)
              (generateCorrectSourceMap file) c, w1))"

text \<open>
  \<^verbatim>\<open>promise.then(callback)\<close> on the promise of a write: the callback runs once the
  write has completed, and not at all when the promise is rejected.
\<close>

definition andThen ::
  "jsstring option \<times> world \<Rightarrow> (world \<Rightarrow> completion \<times> world) \<Rightarrow> completion \<times> world" where
  "andThen r callback = (case r of (None, w) \<Rightarrow> callback w | (Some e, w) \<Rightarrow> (Rejected e, w))"

text \<open>
  The branch of \<^verbatim>\<open>transformGroup\<close> with an output file that is a path (lines 93 to
  105): the comment
  naming the source map is added to the concatenation, the content is written, and the
  function returns the promise. Its continuation calls \<^verbatim>\<open>inject\<close> and then writes the
  source map.
\<close>

definition transformGroup_write ::
  "host \<Rightarrow> nat \<Rightarrow> CSSPluginOptions \<Rightarrow> jsstring \<Rightarrow> Concat \<Rightarrow> world \<Rightarrow> completion \<times> world" where
  "transformGroup_write h gid options configured merged w =
     (let outFile = ensureUserPath h configured;
          bundleDir = path_dirname h outFile;
          sourceMapsName = path_basename h outFile @ (js ''.map'');
          merged1 = Concat_add None ((js ''/*# sourceMappingURL='') @ sourceMapsName @ (js '' */'')) None merged;
          w1 = debugPlugin ((js ''Writing '') @ outFile) w
      in andThen (writeFile h outFile (Concat_content merged1) w1)
           (\<lambda>w2.
              let w3 = inject gid options False w2;
                  sourceMapsFile = ensureUserPath h (path_join h bundleDir sourceMapsName)
              in andThen (writeFile h sourceMapsFile (Concat_sourceMap h merged1) w3)
                   (\<lambda>w4. (Resolved, w4))))"

text \<open>
  The branch without an output file (lines 107 to 109) and the statement after the
  conditional (line 112), which only this branch reaches.
\<close>

definition transformGroup_inline :: "host \<Rightarrow> nat \<Rightarrow> jsstring \<Rightarrow> world \<Rightarrow> completion \<times> world" where
  \<open>transformGroup_inline h gid cssContents w =
     (let w1 = debugPlugin ((js ''Inlining '') @ fuseBoxPath (files w gid)) w;
          safeContents = JSON_stringify cssContents;
          w2 = addAlternativeContent gid
                 ((js ''__fsbx_css("'') @ fuseBoxPath (files w1 gid) @ (js ''", '') @ safeContents @ (js '');'')) w1
      in (Returned, emitHMR h gid w2))\<close>

text \<open>
  \<^verbatim>\<open>transformGroup(group)\<close> (lines 77 to 113). Reading the options of a group that
  has no handler throws. An \<^verbatim>\<open>outFile\<close> that is a function is truthy and goes to
  \<^verbatim>\<open>ensureUserPath\<close> as it is (line 93), which throws before anything is written.
\<close>

definition transformGroup :: "host \<Rightarrow> nat \<Rightarrow> world \<Rightarrow> completion \<times> world" where
  \<open>transformGroup h gid w0 =
     (let w1 = debugPlugin
                 ((js ''Start group transformation on "'') @ fuseBoxPath (files w0 gid) @ (js ''"'')) w0;
          cw = concatSubFiles (subFiles (files w1 gid)) (Concat_new (js ''\<newline>''), w1);
          merged = fst cw;
          w2 = snd cw
      in case groupHandler (files w2 gid) of
           None \<Rightarrow> (Threw (js ''TypeError''), w2)
         | Some handler \<Rightarrow>
             (let options = plugin_options handler;
                  cssContents = Concat_content merged
              in case opt_outFile options of
                   None \<Rightarrow> transformGroup_inline h gid cssContents w2
                 | Some (OutFileFunction f) \<Rightarrow> (Threw (js ''TypeError''), w2)
                 | Some (OutFilePath configured) \<Rightarrow>
                     if configured = [] then transformGroup_inline h gid cssContents w2
                     else transformGroup_write h gid options configured merged w2))\<close>

text \<open>
  \<^verbatim>\<open>transform(file)\<close>, the group path (lines 162 to 174): the source map is dropped,
  the group of that name is looked up and created if there is none, the module is
  appended to it, and the module's alternative content becomes a \<^verbatim>\<open>require\<close> of the
  group.
\<close>

definition transform_grouped ::
  "CSSPluginClass \<Rightarrow> nat \<Rightarrow> jsstring \<Rightarrow> world \<Rightarrow> completion \<times> world" where
  \<open>transform_grouped this fid bundleName w =
     (let w1 = updateFile fid (\<lambda>file. file\<lparr>sourceMap := None\<rparr>) w;
          gw = (case getFileGroup bundleName w1 of
                  Some g \<Rightarrow> (g, w1)
                | None \<Rightarrow> createFileGroup bundleName this w1);
          w2 = addSubFile (fst gw) fid (snd gw);
          w3 = debugPlugin ((js ''  grouping -> '') @ bundleName) w2;
          w4 = addAlternativeContent fid ((js ''require("~/'') @ bundleName @ (js ''")'')) w3
      in (Returned, w4))\<close>

text \<open>
  \<^verbatim>\<open>context.fatal(message)\<close>: the error is reported to the host; the result says
  whether the call threw.
\<close>

definition fatal :: "host \<Rightarrow> jsstring \<Rightarrow> world \<Rightarrow> bool \<times> world" where
  "fatal h message w = (fatal_throws h, logEffect (Fatal message) w)"

definition outFileMessage :: jsstring where
  "outFileMessage =
     (js ''Error in CSSConfig. outFile is expected to be a function that resolves a path'')"

text \<open>
  The direct-output branch (lines 190 to 201): the path comes from the \<^verbatim>\<open>outFile\<close>
  function, \<^verbatim>\<open>inject\<close> sets the alternative content, the content is written, and the
  continuation writes the source map beside it if the module has one.
\<close>

definition transform_write ::
  "host \<Rightarrow> CSSPluginClass \<Rightarrow> nat \<Rightarrow> (jsstring \<Rightarrow> jsstring) \<Rightarrow> world \<Rightarrow> completion \<times> world" where
  "transform_write h this fid outFileFunction w =
     (let userPath = ensureUserPath h (outFileFunction (fuseBoxPath (files w fid)));
          w1 = inject fid (plugin_options this) True w
      in andThen (writeFile h userPath (contents (files w1 fid)) w1)
           (\<lambda>w2.
              case sourceMap (files w2 fid) of
                None \<Rightarrow> (Resolved, w2)
              | Some smap \<Rightarrow>
                  if smap = [] then (Resolved, w2)
                  else
                    (let fileDir = path_dirname h userPath;
                         sourceMapPath = path_join h fileDir (path_basename h userPath @ (js ''.map''))
                     in andThen (writeFile h sourceMapPath smap w2) (\<lambda>w3. (Resolved, w3)))))"

text \<open>
  The inline branch (lines 203 to 209): the content is serialised, the source map is
  dropped, the alternative content becomes the call of the runtime function with the
  path and the content, and the change notifier is called.
\<close>

definition transform_inline :: "host \<Rightarrow> nat \<Rightarrow> jsstring \<Rightarrow> world \<Rightarrow> completion \<times> world" where
  \<open>transform_inline h fid filePath w =
     (let safeContents = JSON_stringify (contents (files w fid));
          w1 = updateFile fid (\<lambda>file. file\<lparr>sourceMap := None\<rparr>) w;
          w2 = addAlternativeContent fid
                 ((js ''__fsbx_css("'') @ filePath @ (js ''", '') @ safeContents @ (js '')'')) w1
      in (Returned, emitHMR h fid w2))\<close>

text \<open>
  Lines 180 to 210: an \<^verbatim>\<open>outFile\<close> option that is not a function is a fatal error. If
  \<^verbatim>\<open>fatal\<close> throws, the exception leaves \<^verbatim>\<open>transform\<close>; if it returns, no function
  was found and the module goes down the inline branch.
\<close>

definition transform_ungrouped ::
  "host \<Rightarrow> CSSPluginClass \<Rightarrow> nat \<Rightarrow> jsstring \<Rightarrow> world \<Rightarrow> completion \<times> world" where
  "transform_ungrouped h this fid filePath w =
     (case opt_outFile (plugin_options this) of
        None \<Rightarrow> transform_inline h fid filePath w
      | Some (OutFileFunction f) \<Rightarrow> transform_write h this fid f w
      | Some (OutFilePath p) \<Rightarrow>
          (let r = fatal h outFileMessage w
           in if fst r then (Threw outFileMessage, snd r)
              else transform_inline h fid filePath (snd r)))"

text \<open>
  Lines 144 to 151 of \<^verbatim>\<open>transform\<close>: the content is loaded and, if the plugin
  minifies, minified.
\<close>

definition transform_load :: "host \<Rightarrow> CSSPluginClass \<Rightarrow> nat \<Rightarrow> world \<Rightarrow> world" where
  "transform_load h this fid w0 =
     (let w1 = loadContents h fid w0
      in updateFile fid
           (\<lambda>file. file\<lparr>contents :=
              (if plugin_minify this then minifyContents (contents file)
               else contents file)\<rparr>) w1)"

text \<open>
  \<^verbatim>\<open>transform(file)\<close> (lines 136 to 211). A module with members is left alone.
  After the content is loaded, the module goes to its group if a group name is
  configured (a string that is not empty), and down the direct-output or the inline
  branch otherwise.
\<close>

definition transform :: "host \<Rightarrow> CSSPluginClass \<Rightarrow> nat \<Rightarrow> world \<Rightarrow> completion \<times> world" where
  "transform h this fid w0 =
     (if hasSubFiles (files w0 fid) then (Returned, w0)
      else
        (let w2 = transform_load h this fid w0;
             filePath = fuseBoxPath (files w2 fid)
         in case opt_group (plugin_options this) of
              None \<Rightarrow> transform_ungrouped h this fid filePath w2
            | Some bundleName \<Rightarrow>
                if bundleName = [] then transform_ungrouped h this fid filePath w2
                else transform_grouped this fid bundleName w2))"

text \<open>
  The content a module has once it is loaded: what it holds if it was loaded before and
  what its file holds otherwise, minified if the plugin minifies.
\<close>

definition loadedContents :: "host \<Rightarrow> CSSPluginClass \<Rightarrow> File \<Rightarrow> jsstring" where
  "loadedContents h this file =
     (let raw = (if isLoaded file then contents file else readFile h (absPath file))
      in if plugin_minify this then minifyContents raw else raw)"

section \<open>A sample host and sample modules\<close>

text \<open>
  One host to run the plugin on: a stylesheet is a path that ends in \<^verbatim>\<open>.css\<close>, a
  relative user path is resolved under \<^verbatim>\<open>/app\<close>, paths are split at the last slash,
  every write succeeds and \<^verbatim>\<open>fatal\<close> throws. A second host differs only in that
  \<^verbatim>\<open>fatal\<close> returns.
\<close>

definition demo_host :: host where
  "demo_host =
     \<lparr>isStylesheetExtension = (\<lambda>p. drop (length p - 4) p = (js ''.css'')),
      ensureUserPath = (\<lambda>p. if take 1 p = (js ''/'') then p else (js ''/app/'') @ p),
      path_dirname = (\<lambda>p. rev (drop 1 (dropWhile (\<lambda>c. c \<noteq> 0x2F) (rev p)))),
      path_basename = (\<lambda>p. rev (takeWhile (\<lambda>c. c \<noteq> 0x2F) (rev p))),
      path_join = (\<lambda>a b. a @ (js ''/'') @ b),
      readFile = (\<lambda>p. if p = (js ''/src/a.css'') then (js ''.a{color:red}'') else (js ''.b{color:blue}'')),
      write_error = (\<lambda>p c. None),
      fatal_throws = True,
      mergeSourceMaps = (\<lambda>ps. (js ''{}''))\<rparr>"

definition lenient_host :: host where
  "lenient_host = demo_host\<lparr>fatal_throws := False\<rparr>"

text \<open>A third host on which the write of the bundle's source map fails.\<close>

definition halfway_host :: host where
  "halfway_host =
     demo_host\<lparr>write_error :=
       (\<lambda>p c. if p = js ''/app/dist/bundle.css.map'' then Some (js ''EACCES'') else None)\<rparr>"

text \<open>
  Two modules that are not loaded yet, \<^verbatim>\<open>a.css\<close> at address 0 and \<^verbatim>\<open>b.css\<close> at
  address 1, each with a source map, in a full build (no bundle) with no group so far.
\<close>

definition demo_file :: "jsstring \<Rightarrow> File" where
  "demo_file name =
     \<lparr>fuseBoxPath = name, absPath = (js ''/src/'') @ name, isLoaded = False, contents = [],
      sourceMap = Some (js ''{}''), alternativeContent = None, subFiles = [],
      groupHandler = None\<rparr>"

definition demo_world :: world where
  "demo_world =
     \<lparr>files = (\<lambda>n. if n = 0 then demo_file (js ''a.css'') else demo_file (js ''b.css'')),
      fileGroups = Map.empty, nextFile = 2, currentBundle = None, trace = []\<rparr>"

text \<open>The same modules in an incremental build after a change to a script.\<close>

definition rebuild_world :: world where
  "rebuild_world = demo_world\<lparr>currentBundle := Some \<lparr>lastChangedFile = Some (js ''index.js'')\<rparr>\<rparr>"

text \<open>The same modules in an incremental build after a change to a stylesheet.\<close>

definition restyle_world :: world where
  "restyle_world = demo_world\<lparr>currentBundle := Some \<lparr>lastChangedFile = Some (js ''b.css'')\<rparr>\<rparr>"

text \<open>And in a build whose bundle names no last changed file.\<close>

definition fresh_bundle_world :: world where
  "fresh_bundle_world = demo_world\<lparr>currentBundle := Some \<lparr>lastChangedFile = None\<rparr>\<rparr>"

definition no_options :: CSSPluginOptions where
  "no_options = \<lparr>opt_outFile = None, opt_inject = None, opt_group = None, opt_minify = None\<rparr>"

text \<open>
  A group \<^verbatim>\<open>bundle.css\<close> at address 2 that is ready to be finalised: its members are
  the two modules, loaded, and its handler is a plugin with the given options.
\<close>

definition member_file :: "jsstring \<Rightarrow> jsstring \<Rightarrow> File" where
  \<open>member_file name css =
     \<lparr>fuseBoxPath = name, absPath = (js ''/src/'') @ name, isLoaded = True, contents = css,
      sourceMap = None, alternativeContent = Some (js ''require("~/bundle.css")''), subFiles = [],
      groupHandler = None\<rparr>\<close>

definition group_world :: "CSSPluginOptions \<Rightarrow> world" where
  "group_world opts =
     \<lparr>files = (\<lambda>n. if n = 0 then member_file (js ''a.css'') (js ''.a{color:red}'')
                   else if n = 1 then member_file (js ''b.css'') (js ''.b{color:blue}'')
                   else \<lparr>fuseBoxPath = (js ''bundle.css''), absPath = (js ''bundle.css''), isLoaded = False,
                         contents = [], sourceMap = None, alternativeContent = None,
                         subFiles = [0, 1], groupHandler = Some (CSSPlugin opts)\<rparr>),
      fileGroups = [(js ''bundle.css'') \<mapsto> 2], nextFile = 3, currentBundle = None, trace = []\<rparr>"

text \<open>Whether an effect is a change event, a write, or a replacement by \<^verbatim>\<open>inject\<close>.\<close>

definition isEmit :: "effect \<Rightarrow> bool" where
  "isEmit e = (case e of Emit ev \<Rightarrow> True | _ \<Rightarrow> False)"

definition isWrite :: "effect \<Rightarrow> bool" where
  "isWrite e = (case e of WriteBegin p c \<Rightarrow> True | WriteEnd p \<Rightarrow> True | WriteError p m \<Rightarrow> True | _ \<Rightarrow> False)"

definition isInject :: "effect \<Rightarrow> bool" where
  "isInject e = (case e of Inject p r \<Rightarrow> True | _ \<Rightarrow> False)"

text \<open>
  In a list of effects, an effect of the first kind happens before any of the second
  kind: one of the first kind occurs, and none of the second kind occurs before it.
\<close>

fun happensBefore :: "(effect \<Rightarrow> bool) \<Rightarrow> (effect \<Rightarrow> bool) \<Rightarrow> effect list \<Rightarrow> bool" where
  "happensBefore A B [] = False"
| "happensBefore A B (e # es) = (if A e then True else if B e then False else happensBefore A B es)"

text \<open>Sample plugins: options for a group, an output file, and no injection.\<close>

definition grouping :: CSSPluginOptions where
  "grouping = no_options\<lparr>opt_group := Some (js ''bundle.css'')\<rparr>"

definition toDist :: CSSPluginOptions where
  "toDist = no_options\<lparr>opt_outFile := Some (OutFileFunction (\<lambda>p. (js ''dist/'') @ p))\<rparr>"

definition toBundleFile :: CSSPluginOptions where
  "toBundleFile = no_options\<lparr>opt_outFile := Some (OutFilePath (js ''dist/bundle.css''))\<rparr>"

definition noInject :: "CSSPluginOptions \<Rightarrow> CSSPluginOptions" where
  "noInject opts = opts\<lparr>opt_inject := Some (InjectBool False)\<rparr>"

section \<open>Minification\<close>

text \<open>
  After the first replace no two white-space characters stand side by side; the second
  replace and the trim keep it so, and a string of that shape without tabs and newlines
  and without white space at its ends is left as it is by all three steps.
\<close>

fun isolatedWhitespace :: "jsstring \<Rightarrow> bool" where
  "isolatedWhitespace (c # d # cs) =
     (\<not> (isWhiteSpace c \<and> isWhiteSpace d) \<and> isolatedWhitespace (d # cs))"
| "isolatedWhitespace _ = True"

lemma isolated_Cons:
  "isolatedWhitespace (c # cs) =
     ((cs = [] \<or> \<not> (isWhiteSpace c \<and> isWhiteSpace (hd cs))) \<and> isolatedWhitespace cs)"
  by (cases cs) auto

lemma collapse_nonspace_head:
  "\<not> isWhiteSpace d \<Longrightarrow> collapseWhitespace (d # cs) = d # collapseWhitespace cs"
  by (cases cs) auto

lemma dropWhile_head: "dropWhile P xs = [] \<or> \<not> P (hd (dropWhile P xs))"
  by (metis hd_dropWhile)

lemma collapse_after_run:
  "collapseWhitespace (dropWhile isWhiteSpace cs) = [] \<or>
   \<not> isWhiteSpace (hd (collapseWhitespace (dropWhile isWhiteSpace cs)))"
proof (cases "dropWhile isWhiteSpace cs")
  case Nil
  then show ?thesis by (simp del: dropWhile_eq_Nil_conv)
next
  case (Cons x xs)
  then have "\<not> isWhiteSpace x"
    using dropWhile_head [of isWhiteSpace cs] by simp
  with Cons show ?thesis by (simp add: collapse_nonspace_head)
qed

lemma collapse_isolated: "isolatedWhitespace (collapseWhitespace s)"
proof (induction s rule: collapseWhitespace.induct)
  case 1
  then show ?case by simp
next
  case (2 c)
  then show ?case by simp
next
  case (3 c d cs)
  show ?case
  proof (cases "isWhiteSpace c \<and> isWhiteSpace d")
    case True
    with 3 collapse_after_run [of cs] show ?thesis
      by (auto simp: isolated_Cons)
  next
    case False
    show ?thesis
    proof (cases "isWhiteSpace d")
      case True
      with False 3 show ?thesis by (auto simp: isolated_Cons)
    next
      case nd: False
      with False 3 show ?thesis
        by (auto simp: isolated_Cons collapse_nonspace_head)
    qed
  qed
qed

lemma collapse_fixed: "isolatedWhitespace s \<Longrightarrow> collapseWhitespace s = s"
  by (induction s rule: collapseWhitespace.induct) auto

lemma isolated_append:
  "isolatedWhitespace (xs @ ys) \<Longrightarrow> isolatedWhitespace xs \<and> isolatedWhitespace ys"
  by (induction xs rule: isolatedWhitespace.induct) (auto simp: isolated_Cons)

lemma tab_is_space: "isTabOrNewline c \<Longrightarrow> isWhiteSpace c"
  by (auto simp: isTabOrNewline_def isWhiteSpace_def)

lemma isolated_remove:
  "isolatedWhitespace s \<Longrightarrow> isolatedWhitespace (removeTabsNewlines s)"
  unfolding removeTabsNewlines_def
proof (induction s rule: isolatedWhitespace.induct)
  case (1 c d cs)
  then show ?case
    by (auto simp: isolated_Cons dest: tab_is_space)
qed auto

lemma rev_split: "rev (dropWhile P r) @ rev (takeWhile P r) = rev r"
  by (metis rev_append takeWhile_dropWhile_id)

lemma trim_infix: "\<exists>a b. s = a @ trim s @ b"
proof -
  let ?u = "dropWhile isWhiteSpace s"
  have "?u = trim s @ rev (takeWhile isWhiteSpace (rev ?u))"
    using rev_split [of isWhiteSpace "rev ?u"] by (simp only: trim_def rev_rev_ident)
  moreover have "s = takeWhile isWhiteSpace s @ ?u" by simp
  ultimately show ?thesis by metis
qed

lemma isolated_trim: "isolatedWhitespace s \<Longrightarrow> isolatedWhitespace (trim s)"
  using trim_infix [of s] isolated_append by metis

lemma set_trim: "set (trim s) \<subseteq> set s"
  using trim_infix [of s] by (metis Un_upper1 Un_upper2 set_append subset_trans)

lemma remove_fixed: "\<forall>c \<in> set s. \<not> isTabOrNewline c \<Longrightarrow> removeTabsNewlines s = s"
  by (simp add: removeTabsNewlines_def)

lemma remove_clean: "\<forall>c \<in> set (removeTabsNewlines s). \<not> isTabOrNewline c"
  by (simp add: removeTabsNewlines_def)

lemma trim_head: "trim s = [] \<or> \<not> isWhiteSpace (hd (trim s))"
proof (cases "trim s = []")
  case True
  then show ?thesis by simp
next
  case False
  let ?u = "dropWhile isWhiteSpace s"
  let ?v = "dropWhile isWhiteSpace (rev ?u)"
  from False have v: "?v \<noteq> []" by (simp add: trim_def)
  then have u: "?u \<noteq> []" by (metis dropWhile.simps(1) rev.simps(1))
  have "rev ?u = takeWhile isWhiteSpace (rev ?u) @ ?v" by simp
  then have "last (rev ?u) = last ?v" using v by (metis last_appendR)
  then have "hd (trim s) = hd ?u"
    using u v by (simp add: trim_def hd_rev last_rev)
  with u dropWhile_head [of isWhiteSpace s] show ?thesis by metis
qed

lemma trim_trim: "trim (trim s) = trim s"
proof -
  have "dropWhile isWhiteSpace (trim s) = trim s"
    using trim_head [of s] by (cases "trim s") auto
  then show ?thesis
    by (simp add: trim_def)
qed

text \<open>
  C8. Minification is idempotent: minifying a content that is already minified gives
  the same content, for every content string, that is, for every sequence of 16-bit
  code units.
\<close>

theorem minifyContents_idempotent: "minifyContents (minifyContents s) = minifyContents s"
proof -
  let ?t = "removeTabsNewlines (collapseWhitespace s)"
  have iso: "isolatedWhitespace (trim ?t)"
    by (intro isolated_trim isolated_remove collapse_isolated)
  have clean: "\<forall>c \<in> set (trim ?t). \<not> isTabOrNewline c"
    using set_trim [of ?t] remove_clean [of "collapseWhitespace s"] by blast
  show ?thesis
    by (simp add: minifyContents_def collapse_fixed [OF iso] remove_fixed [OF clean] trim_trim)
qed

lemmas string_defs = js_def isWhiteSpace_def isTabOrNewline_def removeTabsNewlines_def trim_def
  minifyContents_def JSON_stringify_def quoteJSONChar_def hexDigit_def unicodeEscape_def
  isHighSurrogate_def isLowSurrogate_def

text \<open>
  The theorem at a stylesheet with a byte order mark, indentation by an ideographic
  space and an em space, newlines, a tab and a line separator: the second minification
  changes nothing, and the first gives the content on one line.
\<close>

theorem minifyContents_idempotent_witness:
  "minifyContents (minifyContents
       ([0xFEFF] @ js ''.a {'' @ [0x0A, 0x3000, 0x2003] @ js ''c:'' @ [0x09] @ js ''r;''
          @ [0x0A] @ js ''}'' @ [0x2028]))
     = minifyContents
       ([0xFEFF] @ js ''.a {'' @ [0x0A, 0x3000, 0x2003] @ js ''c:'' @ [0x09] @ js ''r;''
          @ [0x0A] @ js ''}'' @ [0x2028])
   \<and> minifyContents
       ([0xFEFF] @ js ''.a {'' @ [0x0A, 0x3000, 0x2003] @ js ''c:'' @ [0x09] @ js ''r;''
          @ [0x0A] @ js ''}'' @ [0x2028])
     = js ''.a { c:r;}''"
  by (rule conjI [OF minifyContents_idempotent]) (simp add: string_defs)

section \<open>One module: transform\<close>

lemmas world_defs = logEffect_def updateFile_def debugPlugin_def
  addAlternativeContent_def addSubFile_def generateCorrectSourceMap_def getFileGroup_def
  createFileGroup_def writeFile_def andThen_def fatal_def

lemmas plugin_defs = injectResult_def inject_def emitRequired_def emitHMR_def
  transformGroup_write_def transformGroup_inline_def transformGroup_def transform_grouped_def
  transform_write_def transform_inline_def transform_ungrouped_def transform_def
  transform_load_def loadContents_def hasSubFiles_def truthy_def
  loadedContents_def Concat_new_def Concat_add_def Concat_content_def Concat_sourceMap_def

lemmas demo_defs = js_def demo_host_def lenient_host_def halfway_host_def demo_file_def demo_world_def rebuild_world_def
  restyle_world_def fresh_bundle_world_def no_options_def member_file_def group_world_def
  CSSPlugin_def grouping_def toDist_def toBundleFile_def noInject_def outFileMessage_def
  isEmit_def isWrite_def isInject_def

text \<open>Loading and minifying touch the module's content and nothing else of it.\<close>

lemma loaded_again: "isLoaded f \<Longrightarrow> f\<lparr>isLoaded := True\<rparr> = f"
  by (cases f) simp

lemma transform_load_eq:
  "transform_load h this fid w =
     w\<lparr>files := (files w)(fid := (files w fid)\<lparr>isLoaded := True,
                                                  contents := loadedContents h this (files w fid)\<rparr>),
       trace := trace w @ (if isLoaded (files w fid) then []
                           else [ReadFile (absPath (files w fid))])\<rparr>"
proof (cases "isLoaded (files w fid)")
  case True
  then show ?thesis
    by (simp add: transform_load_def loadContents_def updateFile_def loadedContents_def
          Let_def loaded_again)
next
  case False
  then show ?thesis
    by (simp add: transform_load_def loadContents_def updateFile_def logEffect_def
          loadedContents_def Let_def)
qed

text \<open>Which branch a module takes.\<close>

lemma transform_ungrouped_eq:
  assumes "\<not> hasSubFiles (files w fid)" and "\<not> truthy (opt_group (plugin_options this))"
  shows "transform h this fid w =
           transform_ungrouped h this fid (fuseBoxPath (files w fid)) (transform_load h this fid w)"
  using assms
  by (simp add: transform_def truthy_def Let_def transform_load_eq split: option.splits)


lemma transform_inline_alt:
  \<open>alternativeContent (files (snd (transform_inline h fid filePath w)) fid) =
     Some ((js ''__fsbx_css("'') @ filePath @ (js ''", '') @ JSON_stringify (contents (files w fid)) @ (js '')''))\<close>
  by (simp add: transform_inline_def emitHMR_def world_defs Let_def)

lemma transform_inline_returns: "fst (transform_inline h fid filePath w) = Returned"
  by (simp add: transform_inline_def Let_def)

lemma transform_write_alt:
  "alternativeContent (files (snd (transform_write h this fid f w)) fid) =
     Some (injectResult (plugin_options this) (fuseBoxPath (files w fid)))"
  by (simp add: transform_write_def inject_def world_defs Let_def split: option.splits)

lemma injectResult_cases:
  \<open>injectResult options path =
     (case opt_inject options of
        Some (InjectBool False) \<Rightarrow> []
      | Some (InjectFunction g) \<Rightarrow> (js ''__fsbx_css("'') @ g path @ (js ''");'')
      | _ \<Rightarrow> (js ''__fsbx_css("'') @ path @ (js ''");''))\<close>
  by (simp add: injectResult_def split: option.splits injectOption.splits bool.splits)

lemma injectResult_false:
  "opt_inject options = Some (InjectBool False) \<Longrightarrow> injectResult options p = []"
  by (simp add: injectResult_def)

text \<open>
  C4, as the code has it. A module that is transformed with no group and no output file
  returns from \<^verbatim>\<open>transform\<close> with the call \<^verbatim>\<open>__fsbx_css("<logicalPath>", <json>)\<close> as its
  replacement, where \<^verbatim>\<open><json>\<close> is \<^verbatim>\<open>JSON.stringify\<close> of its content, minified if the
  plugin minifies. The call ends with the closing parenthesis: no semicolon follows.
\<close>

theorem transform_inline_value:
  assumes "\<not> hasSubFiles (files w fid)"
    and "\<not> truthy (opt_group (plugin_options this))"
    and "opt_outFile (plugin_options this) = None"
  shows \<open>fst (transform h this fid w) = Returned \<and>
         alternativeContent (files (snd (transform h this fid w)) fid) =
           Some ((js ''__fsbx_css("'') @ fuseBoxPath (files w fid) @ (js ''", '')
                   @ JSON_stringify (loadedContents h this (files w fid)) @ (js '')''))\<close>
proof -
  have "transform h this fid w =
          transform_inline h fid (fuseBoxPath (files w fid)) (transform_load h this fid w)"
    using assms by (simp add: transform_ungrouped_eq transform_ungrouped_def)
  then show ?thesis
    by (simp add: transform_inline_alt transform_inline_returns) (simp add: transform_load_eq)
qed

text \<open>
  The scenario of the specification: \<^verbatim>\<open>a.css\<close> with the content \<^verbatim>\<open>.a{color:red}\<close>, no
  group, no output file, default injection.
\<close>

theorem transform_inline_value_witness:
  \<open>\<not> hasSubFiles (files demo_world 0) \<and>
   \<not> truthy (opt_group (plugin_options (CSSPlugin no_options))) \<and>
   opt_outFile (plugin_options (CSSPlugin no_options)) = None \<and>
   fst (transform demo_host (CSSPlugin no_options) 0 demo_world) = Returned \<and>
   alternativeContent (files (snd (transform demo_host (CSSPlugin no_options) 0 demo_world)) 0) =
     Some (js ''__fsbx_css("a.css", ".a{color:red}")'')\<close>
proof -
  have h1: "\<not> hasSubFiles (files demo_world 0)"
    by (simp add: demo_defs hasSubFiles_def)
  have h2: "\<not> truthy (opt_group (plugin_options (CSSPlugin no_options)))"
    by (simp add: demo_defs truthy_def)
  have h3: "opt_outFile (plugin_options (CSSPlugin no_options)) = None"
    by (simp add: demo_defs)
  from transform_inline_value [OF h1 h2 h3, of demo_host] h1 h2 h3 show ?thesis
    by (simp add: loadedContents_def demo_defs string_defs)
qed

text \<open>
  The value form with a semicolon after the call, as the claim writes the general form,
  is not what that module gets.
\<close>

theorem transform_inline_semicolon_counterexample:
  \<open>alternativeContent (files (snd (transform demo_host (CSSPlugin no_options) 0 demo_world)) 0) \<noteq>
     Some (js ''__fsbx_css("a.css", ".a{color:red}");'')\<close>
  by (simp add: world_defs plugin_defs demo_defs string_defs Let_def)

text \<open>
  C6, as the code has it. A module that is transformed with an \<^verbatim>\<open>outFile\<close> function and
  no group gets a replacement that holds none of its content: the empty string when
  \<^verbatim>\<open>inject\<close> is \<^verbatim>\<open>false\<close>, and the reference call \<^verbatim>\<open>__fsbx_css("<path>");\<close> otherwise,
  with the path the \<^verbatim>\<open>inject\<close> function makes of the logical path, or the logical path
  itself.
\<close>

theorem transform_outFile_reference:
  assumes "\<not> hasSubFiles (files w fid)"
    and "\<not> truthy (opt_group (plugin_options this))"
    and "opt_outFile (plugin_options this) = Some (OutFileFunction f)"
  shows \<open>alternativeContent (files (snd (transform h this fid w)) fid) =
           Some (case opt_inject (plugin_options this) of
                   Some (InjectBool False) \<Rightarrow> []
                 | Some (InjectFunction g) \<Rightarrow> (js ''__fsbx_css("'') @ g (fuseBoxPath (files w fid)) @ (js ''");'')
                 | _ \<Rightarrow> (js ''__fsbx_css("'') @ fuseBoxPath (files w fid) @ (js ''");''))\<close>
proof -
  have "transform h this fid w = transform_write h this fid f (transform_load h this fid w)"
    using assms by (simp add: transform_ungrouped_eq transform_ungrouped_def)
  moreover have "fuseBoxPath (files (transform_load h this fid w) fid) = fuseBoxPath (files w fid)"
    by (simp add: transform_load_eq)
  ultimately show ?thesis
    by (simp add: transform_write_alt injectResult_cases)
qed

text \<open>\<^verbatim>\<open>a.css\<close> written under \<^verbatim>\<open>dist/\<close> with default injection.\<close>

theorem transform_outFile_reference_witness:
  \<open>\<not> hasSubFiles (files demo_world 0) \<and>
   \<not> truthy (opt_group (plugin_options (CSSPlugin toDist))) \<and>
   alternativeContent (files (snd (transform demo_host (CSSPlugin toDist) 0 demo_world)) 0) =
     Some (js ''__fsbx_css("a.css");'')\<close>
proof -
  have h1: "\<not> hasSubFiles (files demo_world 0)"
    by (simp add: demo_defs hasSubFiles_def)
  have h2: "\<not> truthy (opt_group (plugin_options (CSSPlugin toDist)))"
    by (simp add: demo_defs truthy_def)
  have h3: "opt_outFile (plugin_options (CSSPlugin toDist)) = Some (OutFileFunction (\<lambda>p. (js ''dist/'') @ p))"
    by (simp add: demo_defs)
  from transform_outFile_reference [OF h1 h2 h3, of demo_host] h1 h2 show ?thesis
    by (simp add: demo_defs)
qed

text \<open>
  With \<^verbatim>\<open>inject: false\<close> the same module gets the empty string, which is not the
  reference form.
\<close>

theorem transform_outFile_suppressed_counterexample:
  \<open>alternativeContent
     (files (snd (transform demo_host (CSSPlugin (noInject toDist)) 0 demo_world)) 0) = Some [] \<and>
   alternativeContent
     (files (snd (transform demo_host (CSSPlugin (noInject toDist)) 0 demo_world)) 0) \<noteq>
     Some (js ''__fsbx_css("a.css");'')\<close>
  by (simp add: world_defs plugin_defs demo_defs string_defs Let_def)

text \<open>
  C7, as the code has it. When the \<^verbatim>\<open>outFile\<close> option of a module without a group is
  a path and not a function, the fatal error is reported after the module's content was
  loaded and before any write: no write follows it. When the host's \<^verbatim>\<open>fatal\<close> throws,
  the exception ends \<^verbatim>\<open>transform\<close> there: nothing follows the report, no change event
  is sent and the module's replacement stays what it was.
\<close>

theorem transform_outFile_not_function:
  assumes "\<not> hasSubFiles (files w fid)"
    and "\<not> truthy (opt_group (plugin_options this))"
    and "opt_outFile (plugin_options this) = Some (OutFilePath p)"
  shows "\<exists>rest.
           trace (snd (transform h this fid w)) =
             trace w @ (if isLoaded (files w fid) then [] else [ReadFile (absPath (files w fid))])
                     @ [Fatal outFileMessage] @ rest \<and>
           filter isWrite rest = [] \<and>
           (fatal_throws h \<longrightarrow>
              fst (transform h this fid w) = Threw outFileMessage \<and> rest = [] \<and>
              alternativeContent (files (snd (transform h this fid w)) fid) =
                alternativeContent (files w fid))"
proof (cases "fatal_throws h")
  case True
  have "transform h this fid w =
          (Threw outFileMessage, logEffect (Fatal outFileMessage) (transform_load h this fid w))"
    using assms True
    by (simp add: transform_ungrouped_eq transform_ungrouped_def fatal_def Let_def)
  then have "trace (snd (transform h this fid w)) =
             trace w @ (if isLoaded (files w fid) then [] else [ReadFile (absPath (files w fid))])
                     @ [Fatal outFileMessage] @ [] \<and>
           filter isWrite [] = [] \<and>
           (fatal_throws h \<longrightarrow>
              fst (transform h this fid w) = Threw outFileMessage \<and> [] = ([] :: effect list) \<and>
              alternativeContent (files (snd (transform h this fid w)) fid) =
                alternativeContent (files w fid))"
    by (simp add: logEffect_def transform_load_eq)
  then show ?thesis by blast
next
  case False
  let ?w3 = "logEffect (Fatal outFileMessage) (transform_load h this fid w)"
  let ?rest = "if emitRequired h w
               then [Emit \<lparr>ev_type = (js ''js''),
                            ev_content = alternativeContent
                              (files (snd (transform_inline h fid (fuseBoxPath (files w fid)) ?w3)) fid),
                            ev_path = fuseBoxPath (files w fid)\<rparr>]
               else []"
  have run: "transform h this fid w = transform_inline h fid (fuseBoxPath (files w fid)) ?w3"
    using assms False
    by (simp add: transform_ungrouped_eq transform_ungrouped_def fatal_def Let_def)
  have "trace (snd (transform_inline h fid (fuseBoxPath (files w fid)) ?w3)) =
          trace w @ (if isLoaded (files w fid) then [] else [ReadFile (absPath (files w fid))])
                  @ [Fatal outFileMessage] @ ?rest"
    by (simp add: transform_inline_def emitHMR_def emitRequired_def world_defs Let_def
          transform_load_eq)
  moreover have "filter isWrite ?rest = []"
    by (simp add: isWrite_def)
  ultimately show ?thesis
    unfolding run using False by blast
qed

text \<open>A module that is already loaded, with the path of a bundle file as \<^verbatim>\<open>outFile\<close>.\<close>

theorem transform_outFile_not_function_witness:
  "\<not> hasSubFiles (files (group_world no_options) 0) \<and>
   \<not> truthy (opt_group (plugin_options (CSSPlugin toBundleFile))) \<and>
   fatal_throws demo_host \<and>
   fst (transform demo_host (CSSPlugin toBundleFile) 0 (group_world no_options)) =
     Threw outFileMessage \<and>
   trace (snd (transform demo_host (CSSPlugin toBundleFile) 0 (group_world no_options))) =
     [Fatal outFileMessage]"
proof -
  have h1: "\<not> hasSubFiles (files (group_world no_options) 0)"
    by (simp add: demo_defs hasSubFiles_def)
  have h2: "\<not> truthy (opt_group (plugin_options (CSSPlugin toBundleFile)))"
    by (simp add: demo_defs truthy_def)
  have h3: "opt_outFile (plugin_options (CSSPlugin toBundleFile)) = Some (OutFilePath (js ''dist/bundle.css''))"
    by (simp add: demo_defs)
  have h4: "fatal_throws demo_host"
    by (simp add: demo_defs)
  from transform_outFile_not_function [OF h1 h2 h3, of demo_host] h4
  obtain rest where
    "trace (snd (transform demo_host (CSSPlugin toBundleFile) 0 (group_world no_options))) =
       trace (group_world no_options)
       @ (if isLoaded (files (group_world no_options) 0) then []
          else [ReadFile (absPath (files (group_world no_options) 0))])
       @ [Fatal outFileMessage] @ rest"
    and "fst (transform demo_host (CSSPlugin toBundleFile) 0 (group_world no_options)) =
           Threw outFileMessage"
    and "rest = []"
    by blast
  with h1 h2 h4 show ?thesis
    by (simp add: demo_defs)
qed

text \<open>
  For a module that is not loaded yet, its file is read before the fatal error is
  reported. And on a host whose \<^verbatim>\<open>fatal\<close> returns, \<^verbatim>\<open>transform\<close> goes on: the module
  gets the inline replacement.
\<close>

theorem transform_fatal_counterexample:
  \<open>trace (snd (transform demo_host (CSSPlugin toBundleFile) 0 demo_world)) =
     [ReadFile (js ''/src/a.css''), Fatal outFileMessage] \<and>
   fst (transform lenient_host (CSSPlugin toBundleFile) 0 demo_world) = Returned \<and>
   alternativeContent
     (files (snd (transform lenient_host (CSSPlugin toBundleFile) 0 demo_world)) 0) =
     Some (js ''__fsbx_css("a.css", ".a{color:red}")'')\<close>
  by (simp add: world_defs plugin_defs demo_defs string_defs Let_def)

subsection \<open>The group path\<close>










section \<open>The change notifier\<close>

text \<open>
  C3, as the code has it. \<^verbatim>\<open>emitHMR\<close> does nothing when the bundle's last changed file
  is a path that is not a stylesheet. It sends exactly one event, of type \<^verbatim>\<open>js\<close>, with
  the module's alternative content and the module's logical path, when the last changed
  file is a stylesheet, and also when there is no bundle or the bundle names no last
  changed file (none at all, or the empty string).
\<close>

theorem emitHMR_gating:
  "(currentBundle w = Some b \<and> lastChangedFile b = Some changed \<and> changed \<noteq> []
      \<and> \<not> isStylesheetExtension h changed \<longrightarrow> emitHMR h fid w = w)
   \<and> (currentBundle w = Some b \<and> lastChangedFile b = Some changed \<and> changed \<noteq> []
      \<and> isStylesheetExtension h changed \<longrightarrow>
        emitHMR h fid w =
          w\<lparr>trace := trace w @ [Emit \<lparr>ev_type = (js ''js''),
                                       ev_content = alternativeContent (files w fid),
                                       ev_path = fuseBoxPath (files w fid)\<rparr>]\<rparr>)
   \<and> (currentBundle w = None
        \<or> (currentBundle w = Some b \<and> (lastChangedFile b = None \<or> lastChangedFile b = Some [])) \<longrightarrow>
        emitHMR h fid w =
          w\<lparr>trace := trace w @ [Emit \<lparr>ev_type = (js ''js''),
                                       ev_content = alternativeContent (files w fid),
                                       ev_path = fuseBoxPath (files w fid)\<rparr>]\<rparr>)"
  by (auto simp: emitHMR_def emitRequired_def logEffect_def)

text \<open>
  A rebuild after a change to \<^verbatim>\<open>index.js\<close>, a rebuild after a change to \<^verbatim>\<open>b.css\<close>, and
  a build whose bundle names no last changed file.
\<close>

theorem emitHMR_gating_witness:
  "emitHMR demo_host 0 rebuild_world = rebuild_world \<and>
   trace (emitHMR demo_host 0 restyle_world) =
     [Emit \<lparr>ev_type = (js ''js''), ev_content = None, ev_path = (js ''a.css'')\<rparr>] \<and>
   trace (emitHMR demo_host 0 fresh_bundle_world) =
     [Emit \<lparr>ev_type = (js ''js''), ev_content = None, ev_path = (js ''a.css'')\<rparr>]"
proof -
  have a: "emitHMR demo_host 0 rebuild_world = rebuild_world"
    using emitHMR_gating [of rebuild_world "\<lparr>lastChangedFile = Some (js ''index.js'')\<rparr>" "(js ''index.js'')"
        demo_host 0]
    by (simp add: demo_defs)
  have b: "trace (emitHMR demo_host 0 restyle_world) =
     [Emit \<lparr>ev_type = (js ''js''), ev_content = None, ev_path = (js ''a.css'')\<rparr>]"
    using emitHMR_gating [of restyle_world "\<lparr>lastChangedFile = Some (js ''b.css'')\<rparr>" "(js ''b.css'')"
        demo_host 0]
    by (simp add: demo_defs)
  have c: "trace (emitHMR demo_host 0 fresh_bundle_world) =
     [Emit \<lparr>ev_type = (js ''js''), ev_content = None, ev_path = (js ''a.css'')\<rparr>]"
    using emitHMR_gating [of fresh_bundle_world "\<lparr>lastChangedFile = None\<rparr>" "[]" demo_host 0]
    by (simp add: demo_defs)
  from a b c show ?thesis by simp
qed

text \<open>A full build has no bundle, and the notifier sends an event: it is not a no-op.\<close>

theorem emitHMR_full_build_counterexample:
  "currentBundle demo_world = None \<and>
   emitHMR demo_host 0 demo_world \<noteq> demo_world \<and>
   trace (emitHMR demo_host 0 demo_world) =
     [Emit \<lparr>ev_type = (js ''js''), ev_content = None, ev_path = (js ''a.css'')\<rparr>]"
proof -
  have t: "trace (emitHMR demo_host 0 demo_world) =
     [Emit \<lparr>ev_type = (js ''js''), ev_content = None, ev_path = (js ''a.css'')\<rparr>]"
    by (simp add: emitHMR_def emitRequired_def logEffect_def demo_defs)
  have "trace demo_world = []" by (simp add: demo_defs)
  with t have "emitHMR demo_host 0 demo_world \<noteq> demo_world" by auto
  with t show ?thesis by (simp add: demo_defs)
qed

section \<open>A group: transformGroup\<close>

text \<open>The loop over the members adds their parts in order and logs one line for each.\<close>

lemma concatSubFiles_eq:
  "concatSubFiles fids (c, w) =
     (c\<lparr>parts := parts c @ map (\<lambda>fid. (Some (fuseBoxPath (files w fid)), contents (files w fid),
                                         sourceMap (files w fid))) fids\<rparr>,
      w\<lparr>trace := trace w @ map (\<lambda>fid. Debug ((js ''  -> Concat '') @ fuseBoxPath (files w fid))) fids\<rparr>)"
proof (induction fids arbitrary: c w)
  case Nil
  then show ?case by simp
next
  case (Cons fid fids)
  then show ?case
    by (simp add: Let_def debugPlugin_def logEffect_def Concat_add_def generateCorrectSourceMap_def)
qed

text \<open>A write and the continuation of its promise; what \<^verbatim>\<open>inject\<close> leaves behind.\<close>

lemma writeFile_ok:
  "write_error h p c = None \<Longrightarrow>
     writeFile h p c w = (None, w\<lparr>trace := trace w @ [WriteBegin p c, WriteEnd p]\<rparr>)"
  by (simp add: writeFile_def logEffect_def Let_def)

lemma writeFile_failed:
  "write_error h p c = Some e \<Longrightarrow>
     writeFile h p c w = (Some e, w\<lparr>trace := trace w @ [WriteBegin p c, WriteError p e]\<rparr>)"
  by (simp add: writeFile_def logEffect_def Let_def)

lemma andThen_ok: "andThen (None, w) callback = callback w"
  by (simp add: andThen_def)

lemma andThen_failed: "andThen (Some e, w) callback = (Rejected e, w)"
  by (simp add: andThen_def)

lemma inject_trace:
  "trace (inject fid options alternative w) =
     trace w @ [Inject (fuseBoxPath (files w fid)) (injectResult options (fuseBoxPath (files w fid)))]"
  by (simp add: inject_def addAlternativeContent_def updateFile_def logEffect_def Let_def)

lemma inject_contents:
  "contents (files (inject fid options False w) fid) =
     injectResult options (fuseBoxPath (files w fid))"
  by (simp add: inject_def updateFile_def logEffect_def Let_def)

lemma inject_alt:
  "alternativeContent (files (inject fid options True w) fid) =
     Some (injectResult options (fuseBoxPath (files w fid)))"
  by (simp add: inject_def addAlternativeContent_def updateFile_def logEffect_def Let_def)

lemma files_trace_update: "files (w\<lparr>trace := t\<rparr>) = files w"
  by simp

lemma transformGroup_write_run:
  assumes "outFile = ensureUserPath h configured"
    and "mapName = path_basename h outFile @ (js ''.map'')"
    and "mapFile = ensureUserPath h (path_join h (path_dirname h outFile) mapName)"
    and "merged1 = Concat_add None ((js ''/*# sourceMappingURL='') @ mapName @ (js '' */'')) None merged"
    and "content = Concat_content merged1"
    and "smap = Concat_sourceMap h merged1"
    and "w1 = debugPlugin ((js ''Writing '') @ outFile) w"
  shows "transformGroup_write h gid options configured merged w =
           andThen (writeFile h outFile content w1)
             (\<lambda>w2. andThen (writeFile h mapFile smap (inject gid options False w2))
                      (\<lambda>w4. (Resolved, w4)))"
  unfolding assms by (simp add: transformGroup_write_def Let_def)

lemma transformGroup_write_trace:
  assumes "outFile = ensureUserPath h configured"
    and "mapName = path_basename h outFile @ (js ''.map'')"
    and "mapFile = ensureUserPath h (path_join h (path_dirname h outFile) mapName)"
    and "merged1 = Concat_add None ((js ''/*# sourceMappingURL='') @ mapName @ (js '' */'')) None merged"
    and "content = Concat_content merged1"
    and "smap = Concat_sourceMap h merged1"
  shows "trace (snd (transformGroup_write h gid options configured merged w)) =
           trace w @ [Debug ((js ''Writing '') @ outFile), WriteBegin outFile content]
           @ (case write_error h outFile content of
                Some e \<Rightarrow> [WriteError outFile e]
              | None \<Rightarrow>
                  [WriteEnd outFile,
                   Inject (fuseBoxPath (files w gid)) (injectResult options (fuseBoxPath (files w gid))),
                   WriteBegin mapFile smap,
                   (case write_error h mapFile smap of
                      None \<Rightarrow> WriteEnd mapFile
                    | Some e \<Rightarrow> WriteError mapFile e)])"
proof -
  let ?w1 = "debugPlugin ((js ''Writing '') @ outFile) w"
  note run = transformGroup_write_run [OF assms refl, of gid options w]
  show ?thesis
  proof (cases "write_error h outFile content")
    case (Some e)
    then show ?thesis
      unfolding run
      by (simp only: writeFile_failed [OF Some] andThen_failed)
         (simp add: debugPlugin_def logEffect_def)
  next
    case None
    show ?thesis
    proof (cases "write_error h mapFile smap")
      case ok: None
      show ?thesis
        unfolding run
        by (simp only: writeFile_ok [OF None] writeFile_ok [OF ok] andThen_ok)
           (simp add: inject_trace None ok debugPlugin_def logEffect_def)
    next
      case (Some e)
      show ?thesis
        unfolding run
        by (simp only: writeFile_ok [OF None] writeFile_failed [OF Some] andThen_ok andThen_failed)
           (simp add: inject_trace None Some debugPlugin_def logEffect_def)
    qed
  qed
qed

lemma transformGroup_prepare:
  assumes "groupHandler (files w gid) = Some handler"
    and "members = map (files w) (subFiles (files w gid))"
    and "merged = \<lparr>separator = js ''\<newline>'',
                   parts = map (\<lambda>m. (Some (fuseBoxPath m), contents m, sourceMap m)) members\<rparr>"
    and \<open>w2 = w\<lparr>trace := trace w
               @ [Debug (js ''Start group transformation on "'' @ fuseBoxPath (files w gid) @ js ''"'')]
               @ map (\<lambda>m. Debug (js ''  -> Concat '' @ fuseBoxPath m)) members\<rparr>\<close>
  shows "transformGroup h gid w =
           (case opt_outFile (plugin_options handler) of
              None \<Rightarrow> transformGroup_inline h gid (Concat_content merged) w2
            | Some (OutFileFunction f) \<Rightarrow> (Threw (js ''TypeError''), w2)
            | Some (OutFilePath configured) \<Rightarrow>
                if configured = [] then transformGroup_inline h gid (Concat_content merged) w2
                else transformGroup_write h gid (plugin_options handler) configured merged w2)"
proof -
  let ?w1 = \<open>debugPlugin (js ''Start group transformation on "'' @ fuseBoxPath (files w gid) @ js ''"'') w\<close>
  have cs: "concatSubFiles (subFiles (files ?w1 gid)) (Concat_new (js ''\<newline>''), ?w1) = (merged, w2)"
    unfolding assms
    by (simp add: concatSubFiles_eq Concat_new_def debugPlugin_def logEffect_def comp_def)
  have gh: "groupHandler (files w2 gid) = Some handler"
    unfolding assms(4) using assms(1) by simp
  show ?thesis
    unfolding transformGroup_def
    by (simp only: cs Let_def fst_conv snd_conv gh option.case)
qed

text \<open>
  C2, as the code has it. For a group whose handler has an output path (a string that
  is not empty), finalisation
  logs, starts the write of the concatenated content (the members' contents in order and
  the comment that names the source map, joined by newlines), and returns the promise.
  If that write fails, nothing more happens. Once it has completed, \<^verbatim>\<open>inject\<close> produces
  the group's replacement, and only then the write of the concatenated source map
  starts: the content write is complete before the injection and before the map write
  begins, and the injection comes before the map write, not after it.
\<close>

theorem transformGroup_write_order:
  assumes "groupHandler (files w gid) = Some handler"
    and "opt_outFile (plugin_options handler) = Some (OutFilePath configured)"
    and "configured \<noteq> []"
    and "outFile = ensureUserPath h configured"
    and "mapName = path_basename h outFile @ (js ''.map'')"
    and "mapFile = ensureUserPath h (path_join h (path_dirname h outFile) mapName)"
    and "members = map (files w) (subFiles (files w gid))"
    and "comment = (js ''/*# sourceMappingURL='') @ mapName @ (js '' */'')"
    and "content = joinWith (js ''\<newline>'') (map contents members @ [comment])"
    and "smap = mergeSourceMaps h
                  (map (\<lambda>m. (Some (fuseBoxPath m), contents m, sourceMap m)) members
                     @ [(None, comment, None)])"
    and "replacement = injectResult (plugin_options handler) (fuseBoxPath (files w gid))"
  shows \<open>trace (snd (transformGroup h gid w)) =
           trace w
           @ [Debug ((js ''Start group transformation on "'') @ fuseBoxPath (files w gid) @ (js ''"''))]
           @ map (\<lambda>m. Debug ((js ''  -> Concat '') @ fuseBoxPath m)) members
           @ [Debug ((js ''Writing '') @ outFile), WriteBegin outFile content]
           @ (case write_error h outFile content of
                Some e \<Rightarrow> [WriteError outFile e]
              | None \<Rightarrow>
                  [WriteEnd outFile, Inject (fuseBoxPath (files w gid)) replacement,
                   WriteBegin mapFile smap,
                   (case write_error h mapFile smap of
                      None \<Rightarrow> WriteEnd mapFile
                    | Some e \<Rightarrow> WriteError mapFile e)])\<close>
proof -
  let ?merged = "\<lparr>separator = (js ''\<newline>''),
                   parts = map (\<lambda>m. (Some (fuseBoxPath m), contents m, sourceMap m)) members\<rparr>"
  let ?w2 = \<open>w\<lparr>trace := trace w
               @ [Debug (js ''Start group transformation on "'' @ fuseBoxPath (files w gid) @ js ''"'')]
               @ map (\<lambda>m. Debug ((js ''  -> Concat '') @ fuseBoxPath m)) members\<rparr>\<close>
  let ?merged1 = "Concat_add None comment None ?merged"
  have run: "transformGroup h gid w =
      transformGroup_write h gid (plugin_options handler) configured ?merged ?w2"
    using assms(2,3) by (simp add: transformGroup_prepare [OF assms(1) assms(7) refl refl, of h])
  have content: "content = Concat_content ?merged1"
    unfolding assms(9) by (simp add: Concat_content_def Concat_add_def comp_def)
  have smap: "smap = Concat_sourceMap h ?merged1"
    unfolding assms(10) by (simp add: Concat_sourceMap_def Concat_add_def)
  have m1: "?merged1 = Concat_add None ((js ''/*# sourceMappingURL='') @ mapName @ (js '' */'')) None ?merged"
    unfolding assms(8) by simp
  show ?thesis
    unfolding run
    by (simp only: transformGroup_write_trace [OF assms(4) assms(5) assms(6) m1 content smap])
       (simp add: assms(11) cong: option.case_cong)
qed


text \<open>
  The group \<^verbatim>\<open>bundle.css\<close> of \<^verbatim>\<open>a.css\<close> and \<^verbatim>\<open>b.css\<close> with the output file
  \<^verbatim>\<open>dist/bundle.css\<close>, on a host where both writes succeed.
\<close>

theorem transformGroup_write_order_witness:
  \<open>groupHandler (files (group_world toBundleFile) 2) = Some (CSSPlugin toBundleFile) \<and>
   opt_outFile (plugin_options (CSSPlugin toBundleFile)) =
     Some (OutFilePath (js ''dist/bundle.css'')) \<and>
   trace (snd (transformGroup demo_host 2 (group_world toBundleFile))) =
     [Debug (js ''Start group transformation on "bundle.css"''),
      Debug (js ''  -> Concat a.css''), Debug (js ''  -> Concat b.css''),
      Debug (js ''Writing /app/dist/bundle.css''),
      WriteBegin (js ''/app/dist/bundle.css'')
        (js ''.a{color:red}\<newline>.b{color:blue}\<newline>/*# sourceMappingURL=bundle.css.map */''),
      WriteEnd (js ''/app/dist/bundle.css''),
      Inject (js ''bundle.css'') (js ''__fsbx_css("bundle.css");''),
      WriteBegin (js ''/app/dist/bundle.css.map'') (js ''{}''),
      WriteEnd (js ''/app/dist/bundle.css.map'')]\<close>
proof -
  have h1: "groupHandler (files (group_world toBundleFile) 2) = Some (CSSPlugin toBundleFile)"
    by (simp add: demo_defs)
  have h2: "opt_outFile (plugin_options (CSSPlugin toBundleFile)) = Some (OutFilePath (js ''dist/bundle.css''))"
    by (simp add: demo_defs)
  have h3: "js ''dist/bundle.css'' \<noteq> []"
    by (simp add: js_def)
  from transformGroup_write_order [OF h1 h2 h3 refl refl refl refl refl refl refl refl, of demo_host]
    h1 h2
  show ?thesis
    by (simp add: demo_defs injectResult_def)
qed

text \<open>
  In that run the replacement is injected while no write of the source map has ended, or
  even begun: of the writes and the injection, the injection is the third effect and the
  map write the fourth.
\<close>

theorem transformGroup_order_counterexample:
  \<open>\<not> happensBefore (\<lambda>e. e = WriteEnd (js ''/app/dist/bundle.css.map'')) isInject
       (trace (snd (transformGroup demo_host 2 (group_world toBundleFile)))) \<and>
   filter (\<lambda>e. isWrite e \<or> isInject e)
       (trace (snd (transformGroup demo_host 2 (group_world toBundleFile)))) =
     [WriteBegin (js ''/app/dist/bundle.css'')
        (js ''.a{color:red}\<newline>.b{color:blue}\<newline>/*# sourceMappingURL=bundle.css.map */''),
      WriteEnd (js ''/app/dist/bundle.css''),
      Inject (js ''bundle.css'') (js ''__fsbx_css("bundle.css");''),
      WriteBegin (js ''/app/dist/bundle.css.map'') (js ''{}''),
      WriteEnd (js ''/app/dist/bundle.css.map'')]\<close>
  by (simp add: world_defs plugin_defs demo_defs string_defs Let_def)

text \<open>Once the content write has completed, the group's content is what \<^verbatim>\<open>inject\<close> made.\<close>

lemma transformGroup_write_injected:
  assumes "outFile = ensureUserPath h configured"
    and "mapName = path_basename h outFile @ js ''.map''"
    and "mapFile = ensureUserPath h (path_join h (path_dirname h outFile) mapName)"
    and "merged1 = Concat_add None (js ''/*# sourceMappingURL='' @ mapName @ js '' */'') None merged"
    and "content = Concat_content merged1"
    and "smap = Concat_sourceMap h merged1"
    and "write_error h outFile content = None"
  shows "contents (files (snd (transformGroup_write h gid options configured merged w)) gid) =
           injectResult options (fuseBoxPath (files w gid))"
proof -
  let ?w1 = "debugPlugin (js ''Writing '' @ outFile) w"
  let ?w2 = "?w1\<lparr>trace := trace ?w1 @ [WriteBegin outFile content, WriteEnd outFile]\<rparr>"
  let ?w3 = "inject gid options False ?w2"
  note run = transformGroup_write_run [OF assms(1-6) refl, of gid options w]
  have inj: "contents (files ?w3 gid) = injectResult options (fuseBoxPath (files w gid))"
    by (simp add: inject_contents debugPlugin_def logEffect_def)
  show ?thesis
  proof (cases "write_error h mapFile smap")
    case (Some e)
    have "snd (transformGroup_write h gid options configured merged w) =
            ?w3\<lparr>trace := trace ?w3 @ [WriteBegin mapFile smap, WriteError mapFile e]\<rparr>"
      by (simp only: run writeFile_ok [OF assms(7)] writeFile_failed [OF Some] andThen_ok
            andThen_failed snd_conv)
    with inj show ?thesis by simp
  next
    case None
    have "snd (transformGroup_write h gid options configured merged w) =
            ?w3\<lparr>trace := trace ?w3 @ [WriteBegin mapFile smap, WriteEnd mapFile]\<rparr>"
      by (simp only: run writeFile_ok [OF assms(7)] writeFile_ok [OF None] andThen_ok snd_conv)
    with inj show ?thesis by simp
  qed
qed

text \<open>
  C5, as the code has it. With \<^verbatim>\<open>inject: false\<close> the replacement that \<^verbatim>\<open>inject\<close> produces
  is the empty string, where \<^verbatim>\<open>inject\<close> is called: for a module without a group that is
  written through an \<^verbatim>\<open>outFile\<close> function (its alternative content), and for a group
  with an output path whose content write completes (the content of the group's module),
  whether or not the write of the source map succeeds afterwards. The inline branches
  and the group path of \<^verbatim>\<open>transform\<close> do not look at the option.
\<close>

theorem inject_false_empty:
  assumes "opt_inject (plugin_options this) = Some (InjectBool False)"
  shows "(\<not> hasSubFiles (files w fid) \<and> \<not> truthy (opt_group (plugin_options this))
            \<and> opt_outFile (plugin_options this) = Some (OutFileFunction f)
          \<longrightarrow> alternativeContent (files (snd (transform h this fid w)) fid) = Some [])
       \<and> (groupHandler (files w gid) = Some this
            \<and> opt_outFile (plugin_options this) = Some (OutFilePath p) \<and> p \<noteq> []
            \<and> write_error h (ensureUserPath h p)
                 (joinWith (js ''\<newline>'')
                    (map contents (map (files w) (subFiles (files w gid)))
                       @ [js ''/*# sourceMappingURL='' @ (path_basename h (ensureUserPath h p) @ js ''.map'')
                            @ js '' */''])) = None
          \<longrightarrow> contents (files (snd (transformGroup h gid w)) gid) = [])"
proof (intro conjI impI)
  assume a: "\<not> hasSubFiles (files w fid) \<and> \<not> truthy (opt_group (plugin_options this))
            \<and> opt_outFile (plugin_options this) = Some (OutFileFunction f)"
  then have "transform h this fid w = transform_write h this fid f (transform_load h this fid w)"
    by (simp add: transform_ungrouped_eq transform_ungrouped_def)
  then show "alternativeContent (files (snd (transform h this fid w)) fid) = Some []"
    by (simp add: transform_write_alt injectResult_false [OF assms])
next
  let ?members = "map (files w) (subFiles (files w gid))"
  let ?merged = "\<lparr>separator = js ''\<newline>'',
                   parts = map (\<lambda>m. (Some (fuseBoxPath m), contents m, sourceMap m)) ?members\<rparr>"
  let ?mapName = "path_basename h (ensureUserPath h p) @ js ''.map''"
  let ?merged1 = "Concat_add None (js ''/*# sourceMappingURL='' @ ?mapName @ js '' */'') None ?merged"
  assume a: "groupHandler (files w gid) = Some this
            \<and> opt_outFile (plugin_options this) = Some (OutFilePath p) \<and> p \<noteq> []
            \<and> write_error h (ensureUserPath h p)
                 (joinWith (js ''\<newline>'')
                    (map contents ?members @ [js ''/*# sourceMappingURL='' @ ?mapName @ js '' */''])) = None"
  then have gh: "groupHandler (files w gid) = Some this" by simp
  have content: "Concat_content ?merged1 =
      joinWith (js ''\<newline>'')
        (map contents ?members @ [js ''/*# sourceMappingURL='' @ ?mapName @ js '' */''])"
    by (simp add: Concat_content_def Concat_add_def comp_def)
  from a have ok: "write_error h (ensureUserPath h p) (Concat_content ?merged1) = None"
    unfolding content by simp
  let ?w2 = \<open>w\<lparr>trace := trace w
               @ [Debug (js ''Start group transformation on "'' @ fuseBoxPath (files w gid) @ js ''"'')]
               @ map (\<lambda>m. Debug (js ''  -> Concat '' @ fuseBoxPath m)) ?members\<rparr>\<close>
  from a have conf: "opt_outFile (plugin_options this) = Some (OutFilePath p)" and ne: "p \<noteq> []"
    by simp_all
  have run: "transformGroup h gid w =
      transformGroup_write h gid (plugin_options this) p ?merged ?w2"
    unfolding transformGroup_prepare [OF gh refl refl refl, of h]
    by (simp only: conf ne option.case outFileOption.case if_False)
  show "contents (files (snd (transformGroup h gid w)) gid) = []"
    unfolding run
    by (simp only: transformGroup_write_injected [OF refl refl refl refl refl refl ok]
          injectResult_false [OF assms])
qed

text \<open>
  \<^verbatim>\<open>a.css\<close> written under \<^verbatim>\<open>dist/\<close>, and the group written to \<^verbatim>\<open>dist/bundle.css\<close> on
  a host where the write of the source map fails after the content is written.
\<close>

theorem inject_false_empty_witness:
  "opt_inject (plugin_options (CSSPlugin (noInject toDist))) = Some (InjectBool False) \<and>
   \<not> hasSubFiles (files demo_world 0) \<and>
   alternativeContent
     (files (snd (transform demo_host (CSSPlugin (noInject toDist)) 0 demo_world)) 0) = Some [] \<and>
   opt_inject (plugin_options (CSSPlugin (noInject toBundleFile))) = Some (InjectBool False) \<and>
   groupHandler (files (group_world (noInject toBundleFile)) 2) =
     Some (CSSPlugin (noInject toBundleFile)) \<and>
   fst (transformGroup halfway_host 2 (group_world (noInject toBundleFile))) =
     Rejected (js ''EACCES'') \<and>
   contents (files (snd (transformGroup halfway_host 2 (group_world (noInject toBundleFile)))) 2) = []"
proof -
  let ?P = "CSSPlugin (noInject toDist)"
  let ?Q = "CSSPlugin (noInject toBundleFile)"
  have p: "opt_inject (plugin_options ?P) = Some (InjectBool False)"
    by (simp add: demo_defs)
  have q: "opt_inject (plugin_options ?Q) = Some (InjectBool False)"
    by (simp add: demo_defs)
  have h1: "\<not> hasSubFiles (files demo_world 0)"
    by (simp add: demo_defs hasSubFiles_def)
  have a: "alternativeContent (files (snd (transform demo_host ?P 0 demo_world)) 0) = Some []"
    using inject_false_empty [OF p, where w = demo_world and fid = 0
        and f = "\<lambda>p. js ''dist/'' @ p" and h = demo_host] h1
    by (simp add: demo_defs truthy_def)
  have gh: "groupHandler (files (group_world (noInject toBundleFile)) 2) = Some ?Q"
    by (simp add: demo_defs)
  have rej: "fst (transformGroup halfway_host 2 (group_world (noInject toBundleFile))) =
      Rejected (js ''EACCES'')"
    by (simp add: world_defs plugin_defs demo_defs string_defs Let_def)
  have b: "contents (files (snd (transformGroup halfway_host 2 (group_world (noInject toBundleFile)))) 2) = []"
    using inject_false_empty [OF q, where w = "group_world (noInject toBundleFile)"
        and h = halfway_host and gid = 2 and p = "js ''dist/bundle.css''"] gh
    by (simp add: demo_defs)
  from p q h1 a gh rej b show ?thesis by simp
qed

text \<open>
  Without an output file, \<^verbatim>\<open>inject: false\<close> changes nothing: the module gets the inline
  call with its content, and a member of a group gets the \<^verbatim>\<open>require\<close> of its group.
\<close>

theorem inject_false_inline_counterexample:
  \<open>opt_inject (plugin_options (CSSPlugin (noInject no_options))) = Some (InjectBool False) \<and>
   alternativeContent
     (files (snd (transform demo_host (CSSPlugin (noInject no_options)) 0 demo_world)) 0) =
     Some (js ''__fsbx_css("a.css", ".a{color:red}")'') \<and>
   alternativeContent
     (files (snd (transform demo_host (CSSPlugin (noInject grouping)) 0 demo_world)) 0) =
     Some (js ''require("~/bundle.css")'')\<close>
  by (simp add: world_defs plugin_defs demo_defs string_defs Let_def)

text \<open>The branch of \<^verbatim>\<open>transformGroup\<close> with an output path sends no change event.\<close>

lemma transformGroup_write_no_emit:
  "filter isEmit (trace (snd (transformGroup_write h gid options configured merged w))) =
     filter isEmit (trace w)"
  by (simp add: transformGroup_write_trace [OF refl refl refl refl refl refl] isEmit_def
        split: option.splits)

text \<open>
  A group whose \<^verbatim>\<open>outFile\<close> is a function ends in the exception, after the lines of the
  debug log and before any write.
\<close>

lemma transformGroup_outFile_function:
  assumes "groupHandler (files w gid) = Some handler"
    and "opt_outFile (plugin_options handler) = Some (OutFileFunction f)"
  shows "fst (transformGroup h gid w) = Threw (js ''TypeError'') \<and>
         filter isWrite (trace (snd (transformGroup h gid w))) = filter isWrite (trace w)"
  using assms(2)
  by (simp add: transformGroup_prepare [OF assms(1) refl refl refl, of h] isWrite_def comp_def)

text \<open>
  C1, where the code departs from it. The call of \<^verbatim>\<open>emitHMR\<close> stands after the
  conditional of \<^verbatim>\<open>transformGroup\<close> (line 112), but the branch with an output file
  returns the promise of its write (line 100) and never gets there. In a full build,
  where the notifier would send an event, the group with the output file
  \<^verbatim>\<open>dist/bundle.css\<close> is written and injected and no event is sent; the same group
  without an output file sends one, after its replacement is in place.
\<close>

theorem transformGroup_outFile_skips_emitHMR:
  \<open>currentBundle (group_world toBundleFile) = None \<and>
   fst (transformGroup demo_host 2 (group_world toBundleFile)) = Resolved \<and>
   filter isEmit (trace (snd (transformGroup demo_host 2 (group_world toBundleFile)))) = [] \<and>
   filter isEmit (trace (snd (transformGroup demo_host 2 (group_world no_options)))) =
     [Emit \<lparr>ev_type = js ''js'',
            ev_content = Some (js ''__fsbx_css("bundle.css", ".a{color:red}'' @ [0x5C, 0x6E]
                                 @ js ''.b{color:blue}");''),
            ev_path = js ''bundle.css''\<rparr>]\<close>
  by (simp add: world_defs plugin_defs demo_defs string_defs Let_def)

end
